theory Spec2Isabelle
  imports Complex_Main
begin

section \<open>Schema visualizer: data model\<close>

text \<open>
  The script block of the schema visualizer component keeps a list of table objects, a list
  of inferred relationships and a few flags in reactive references, and mutates them from
  event handlers. Each handler is embedded as a function on an explicit state record.

  JavaScript numbers are IEEE doubles; they are idealised here as real numbers. A property
  that was never assigned reads as \<open>undefined\<close>, and arithmetic on it yields \<open>NaN\<close>: both
  are kept as separate values of \<open>jsnum\<close>, because the layout fields of a table object
  (\<open>x\<close>, \<open>y\<close>, \<open>width\<close>, \<open>height\<close>) do not exist before a layout ran.
\<close>

datatype jsnum = Undefined | NaN | Num real

text \<open>
  A column's \<open>default\<close> is an arbitrary JSON scalar (the test dashboard of the repository
  creates a column with \<open>default: true\<close>); \<open>JUndefined\<close> is the absent property.
\<close>

datatype jsval = JUndefined | JNull | JBool bool | JNumber real | JString string

text \<open>
  The flags \<open>primary\<close>, \<open>unique\<close> and \<open>nullable\<close> are only ever tested for truthiness
  (\<open>if (col.primary)\<close>, \<open>if (!col.nullable)\<close>); the record holds that truth value, so an
  absent flag is \<open>False\<close>.
\<close>

record column =
  c_name :: string
  c_type :: string
  c_primary :: bool
  c_unique :: bool
  c_nullable :: bool
  c_default :: jsval

record table =
  t_name :: string
  t_columns :: "column list"
  t_row_count :: nat
  t_x :: jsnum
  t_y :: jsnum
  t_width :: jsnum
  t_height :: jsnum

record relationship =
  r_from :: string
  r_to :: string
  r_column :: string
  r_type :: string

text \<open>The reactive references of the component that the handlers below read or write.\<close>

record state =
  loading :: bool
  tables :: "table list"
  relationships :: "relationship list"
  autoLayout :: bool
  svgWidth :: real
  svgHeight :: real

section \<open>Relationship detection\<close>

text \<open>\<open>str.endsWith(suf)\<close>: the last \<open>length suf\<close> characters of \<open>str\<close> are \<open>suf\<close>.\<close>

definition endsWith :: "string \<Rightarrow> string \<Rightarrow> bool" where
  "endsWith str suf =
     (length suf \<le> length str \<and> drop (length str - length suf) str = suf)"

text \<open>
  \<open>name.replace(/_id$/, '')\<close>: the regular expression is tried at each start position from
  the left; it matches where the rest of the string is exactly \<open>_id\<close> (the three characters,
  then the end of the input), and the match is replaced by the empty string. Without a
  match the string is returned as it is.
\<close>

fun replace_id_suffix :: "string \<Rightarrow> string" where
  "replace_id_suffix [] = []"
| "replace_id_suffix (c # cs) =
     (if c # cs = ''_id'' then [] else c # replace_id_suffix cs)"

text \<open>
  The body of the inner loop of \<open>detectRelationships\<close>, for one column of one table;
  \<open>rels\<close> is \<open>relationships.value\<close> and \<open>push\<close> appends at the end.
\<close>

definition detect_column ::
  "table list \<Rightarrow> table \<Rightarrow> relationship list \<Rightarrow> column \<Rightarrow> relationship list" where
  "detect_column ts table rels column =
     (if endsWith (c_name column) ''_id'' \<or> c_name column = ''id'' then
        (let referencedTable = replace_id_suffix (c_name column) in
         if list_ex (\<lambda>t. t_name t = referencedTable) ts
         then rels @ [\<lparr>r_from = referencedTable, r_to = t_name table,
                       r_column = c_name column, r_type = ''foreign_key''\<rparr>]
         else rels)
      else rels)"

text \<open>
  \<open>detectRelationships\<close> resets the relationship list and then runs over the tables in
  order and, within each table, over its columns in order.
\<close>

definition detectRelationships :: "state \<Rightarrow> state" where
  "detectRelationships s =
     s\<lparr>relationships :=
         foldl (\<lambda>rels table. foldl (detect_column (tables s) table) rels (t_columns table))
           [] (tables s)\<rparr>"

section \<open>Arithmetic on layout fields\<close>


fun js_sub :: "jsnum \<Rightarrow> jsnum \<Rightarrow> jsnum" where
  "js_sub (Num a) (Num b) = Num (a - b)"
| "js_sub _ _ = NaN"


fun Math_max :: "jsnum \<Rightarrow> jsnum \<Rightarrow> jsnum" where
  "Math_max (Num a) (Num b) = Num (max a b)"
| "Math_max _ _ = NaN"

fun Math_min :: "jsnum \<Rightarrow> jsnum \<Rightarrow> jsnum" where
  "Math_min (Num a) (Num b) = Num (min a b)"
| "Math_min _ _ = NaN"

text \<open>\<open>!v\<close> for a number or a missing property: \<open>undefined\<close>, \<open>NaN\<close> and \<open>0\<close> are falsy.\<close>

fun js_not :: "jsnum \<Rightarrow> bool" where
  "js_not Undefined = True"
| "js_not NaN = True"
| "js_not (Num a) = (a = 0)"


section \<open>Layout\<close>

text \<open>
  \<open>applyAutoLayout\<close>: \<open>forEach\<close> visits the tables with their index and assigns the four
  layout fields of each; \<open>enumerate 0\<close> pairs each table with its index.
\<close>

definition applyAutoLayout :: "state \<Rightarrow> state" where
  "applyAutoLayout s =
     (let centerX = svgWidth s / 2;
          centerY = svgHeight s / 2;
          radius = min (svgWidth s) (svgHeight s) / 3
      in s\<lparr>tables :=
            map (\<lambda>(index, table).
                  let angle = (real index * 2 * pi) / real (length (tables s))
                  in table\<lparr>t_x := Num (centerX + radius * cos angle - 140),
                           t_y := Num (centerY + radius * sin angle - 100),
                           t_width := Num 280,
                           t_height := Num (200 + real (length (t_columns table)) * 25)\<rparr>)
              (enumerate 0 (tables s))\<rparr>)"

text \<open>
  The default positions that \<open>loadSchema\<close> sets in manual mode (the \<open>forEach\<close> under the
  comment "Set default positions"); \<open>Math.floor(index / 3)\<close> is \<open>index div 3\<close> on an index.
\<close>

definition setDefaultPositions :: "table list \<Rightarrow> table list" where
  "setDefaultPositions ts =
     map (\<lambda>(index, table).
           table\<lparr>t_x := Num (100 + real (index mod 3) * 350),
                  t_y := Num (100 + real (index div 3) * 250),
                  t_width := Num 280,
                  t_height := Num (200 + real (length (t_columns table)) * 25)\<rparr>)
       (enumerate 0 ts)"

text \<open>The guard \<open>!tables.value[0]?.x\<close>: there is no first table, or its \<open>x\<close> is falsy.\<close>

definition first_x_unset :: "table list \<Rightarrow> bool" where
  "first_x_unset ts = (case ts of [] \<Rightarrow> True | t # _ \<Rightarrow> js_not (t_x t))"

section \<open>Loading\<close>

text \<open>
  What the awaited request hands to \<open>loadSchema\<close>. \<open>Failed\<close>: the request rejects, or
  reading \<open>response.data.tables\<close> throws because the body is \<open>null\<close>; control then passes
  to the \<open>catch\<close> block before anything was assigned. \<open>Body None\<close>: the body has no
  (or a falsy) \<open>tables\<close> property, so that \<open>|| []\<close> applies. \<open>Body (Some ts)\<close>: the body
  carries the array \<open>ts\<close> of table descriptors.
\<close>

datatype response = Failed | Body "table list option"

text \<open>
  \<open>loadSchema\<close>, from the call to the end of its \<open>finally\<close> block. The catch block only
  logs, and the \<open>finally\<close> block resets \<open>loading\<close>.
\<close>

definition loadSchema :: "response \<Rightarrow> state \<Rightarrow> state" where
  "loadSchema r s =
     (case r of
        Failed \<Rightarrow> s\<lparr>loading := False\<rparr>
      | Body data \<Rightarrow>
          (let s1 = s\<lparr>loading := True,
                      tables := (case data of Some ts \<Rightarrow> ts | None \<Rightarrow> [])\<rparr>;
               s2 = (if autoLayout s1 then applyAutoLayout s1
                     else if first_x_unset (tables s1)
                       then s1\<lparr>tables := setDefaultPositions (tables s1)\<rparr>
                     else s1);
               s3 = detectRelationships s2
           in s3\<lparr>loading := False\<rparr>))"

section \<open>Connection paths\<close>


section \<open>Dragging\<close>

text \<open>
  The module variables \<open>dragTable\<close> and \<open>dragOffset\<close>. \<open>dragTable\<close> refers to the table
  object under the pointer; the handlers write the \<open>x\<close> and \<open>y\<close> of that object, and the
  record holds the object as the handlers leave it. \<open>listening\<close> says whether the
  \<open>mousemove\<close> and \<open>mouseup\<close> listeners are registered on the document.
\<close>

record drag =
  dragTable :: "table option"
  dragOffset_x :: real
  dragOffset_y :: real
  listening :: bool

record mouse_event =
  clientX :: real
  clientY :: real

text \<open>The part of a \<open>getBoundingClientRect()\<close> result that the handlers read.\<close>

record client_rect =
  rect_left :: real
  rect_top :: real

text \<open>
  \<open>startDrag(table, event)\<close>; \<open>rect\<close> is \<open>event.target.getBoundingClientRect()\<close>. In
  auto-layout mode the handler returns at once.
\<close>

definition startDrag :: "state \<Rightarrow> table \<Rightarrow> mouse_event \<Rightarrow> client_rect \<Rightarrow> drag \<Rightarrow> drag" where
  "startDrag s table event rect d =
     (if autoLayout s then d
      else d\<lparr>dragTable := Some table,
             dragOffset_x := clientX event - rect_left rect,
             dragOffset_y := clientY event - rect_top rect,
             listening := True\<rparr>)"

text \<open>
  \<open>handleDrag(event)\<close>; \<open>containerRect\<close> is \<open>container.value.getBoundingClientRect()\<close>.
  The position is first set to the pointer position minus the grab offset and then
  overwritten with its clamped value ("Keep within bounds").
\<close>

definition handleDrag :: "state \<Rightarrow> client_rect \<Rightarrow> mouse_event \<Rightarrow> drag \<Rightarrow> drag" where
  "handleDrag s containerRect event d =
     (case dragTable d of
        None \<Rightarrow> d
      | Some t \<Rightarrow>
          (let x1 = Num (clientX event - rect_left containerRect - dragOffset_x d);
               y1 = Num (clientY event - rect_top containerRect - dragOffset_y d);
               x2 = Math_max (Num 0) (Math_min (js_sub (Num (svgWidth s)) (t_width t)) x1);
               y2 = Math_max (Num 0) (Math_min (js_sub (Num (svgHeight s)) (t_height t)) y1)
           in d\<lparr>dragTable := Some (t\<lparr>t_x := x2, t_y := y2\<rparr>)\<rparr>))"

text \<open>\<open>stopDrag\<close> forgets the table and removes both listeners.\<close>

definition stopDrag :: "drag \<Rightarrow> drag" where
  "stopDrag d = d\<lparr>dragTable := None, listening := False\<rparr>"

section \<open>SQL export\<close>

text \<open>Truthiness of a JSON scalar, as \<open>if (col.default)\<close> tests it.\<close>

fun truthy :: "jsval \<Rightarrow> bool" where
  "truthy JUndefined = False"
| "truthy JNull = False"
| "truthy (JBool b) = b"
| "truthy (JNumber a) = (a \<noteq> 0)"
| "truthy (JString str) = (str \<noteq> [])"

text \<open>A JSON scalar inside a template literal.\<close>

fun template_text :: "(real \<Rightarrow> string) \<Rightarrow> jsval \<Rightarrow> string" where
  "template_text fmt JUndefined = ''undefined''"
| "template_text fmt JNull = ''null''"
| "template_text fmt (JBool b) = (if b then ''true'' else ''false'')"
| "template_text fmt (JNumber a) = fmt a"
| "template_text fmt (JString str) = str"

text \<open>
  The body of the inner \<open>forEach\<close> of \<open>exportAsSQL\<close>: \<open>sql\<close> is the text so far, \<open>n\<close> is
  \<open>table.columns.length\<close>; the comparison \<open>index < n - 1\<close> is on integers.
\<close>

definition export_column :: "(real \<Rightarrow> string) \<Rightarrow> nat \<Rightarrow> string \<Rightarrow> nat \<times> column \<Rightarrow> string" where
  "export_column fmt n sql ic =
     (case ic of (index, col) \<Rightarrow>
        (let sql1 = sql @ ''  '' @ c_name col @ '' '' @ c_type col;
             sql2 = (if c_primary col then sql1 @ '' PRIMARY KEY'' else sql1);
             sql3 = (if c_unique col then sql2 @ '' UNIQUE'' else sql2);
             sql4 = (if \<not> c_nullable col then sql3 @ '' NOT NULL'' else sql3);
             sql5 = (if truthy (c_default col)
                     then sql4 @ '' DEFAULT '' @ template_text fmt (c_default col) else sql4);
             sql6 = (if int index < int n - 1 then sql5 @ '','' else sql5)
         in sql6 @ ''\<newline>''))"

text \<open>The body of the outer \<open>forEach\<close>, for one table.\<close>

definition export_table :: "(real \<Rightarrow> string) \<Rightarrow> string \<Rightarrow> table \<Rightarrow> string" where
  "export_table fmt sql table =
     (let sql1 = sql @ ''-- Table: '' @ t_name table @ ''\<newline>'';
          sql2 = sql1 @ ''CREATE TABLE '' @ t_name table @ '' (\<newline>'';
          sql3 = foldl (export_column fmt (length (t_columns table))) sql2
                   (enumerate 0 (t_columns table))
      in sql3 @ '');\<newline>\<newline>'')"

text \<open>
  \<open>exportAsSQL\<close> up to the download: the text \<open>sql\<close> that is handed to the link
  element. \<open>now\<close> is \<open>new Date().toISOString()\<close>.
\<close>

definition exportAsSQL :: "(real \<Rightarrow> string) \<Rightarrow> string \<Rightarrow> state \<Rightarrow> string" where
  "exportAsSQL fmt now s =
     foldl (export_table fmt)
       (''-- Database Schema Export\<newline>'' @ ''-- Generated: '' @ now @ ''\<newline>\<newline>'')
       (tables s)"

section \<open>Notions of the specification\<close>

text \<open>
  What the specification says one column contributes to the relationships, with the column
  named \<open>id\<close> treated as the code treats it: a column whose name ends with \<open>_id\<close> gives one
  relationship from the table named by the stripped name when such a table exists; a
  column named \<open>id\<close> gives one relationship from the table named \<open>id\<close> when such a table
  exists; every other column gives none.
\<close>

definition inferred_for_column :: "table list \<Rightarrow> table \<Rightarrow> column \<Rightarrow> relationship list" where
  "inferred_for_column ts T col =
     (if endsWith (c_name col) ''_id'' then
        (if take (length (c_name col) - 3) (c_name col) \<in> set (map t_name ts)
         then [\<lparr>r_from = take (length (c_name col) - 3) (c_name col), r_to = t_name T,
                r_column = c_name col, r_type = ''foreign_key''\<rparr>]
         else [])
      else if c_name col = ''id'' then
        (if ''id'' \<in> set (map t_name ts)
         then [\<lparr>r_from = ''id'', r_to = t_name T, r_column = ''id'',
                r_type = ''foreign_key''\<rparr>]
         else [])
      else [])"

text \<open>All (table, column) pairs of a model: table order first, then column order.\<close>

definition all_columns :: "table list \<Rightarrow> (table \<times> column) list" where
  "all_columns ts = concat (map (\<lambda>t. map (Pair t) (t_columns t)) ts)"

text \<open>
  The bounds invariant of the specification for one table on the canvas of state \<open>s\<close>:
  all four layout fields are numbers and the rectangle lies inside the canvas.
\<close>

definition within_canvas :: "state \<Rightarrow> table \<Rightarrow> bool" where
  "within_canvas s t =
     (case (t_x t, t_y t, t_width t, t_height t) of
        (Num x, Num y, Num w, Num h) \<Rightarrow>
          0 \<le> x \<and> x \<le> svgWidth s - w \<and> 0 \<le> y \<and> y \<le> svgHeight s - h
      | _ \<Rightarrow> False)"





text \<open>
  The column definition of the SQL export as the specification words it: name and type
  keyword, then the constraints that apply; \<open>DEFAULT\<close> is emitted when the default is truthy.
  \<open>comma_lines\<close> puts one definition on each line, with a comma after every line but the
  last.
\<close>

definition column_ddl :: "(real \<Rightarrow> string) \<Rightarrow> column \<Rightarrow> string" where
  "column_ddl fmt col =
     ''  '' @ c_name col @ '' '' @ c_type col
     @ (if c_primary col then '' PRIMARY KEY'' else [])
     @ (if c_unique col then '' UNIQUE'' else [])
     @ (if c_nullable col then [] else '' NOT NULL'')
     @ (if truthy (c_default col) then '' DEFAULT '' @ template_text fmt (c_default col) else [])"

fun comma_lines :: "string list \<Rightarrow> string" where
  "comma_lines [] = []"
| "comma_lines [l] = l @ ''\<newline>''"
| "comma_lines (l # ls) = l @ '','' @ ''\<newline>'' @ comma_lines ls"

definition table_ddl :: "(real \<Rightarrow> string) \<Rightarrow> table \<Rightarrow> string" where
  "table_ddl fmt t =
     ''-- Table: '' @ t_name t @ ''\<newline>''
     @ ''CREATE TABLE '' @ t_name t @ '' (\<newline>''
     @ comma_lines (map (column_ddl fmt) (t_columns t))
     @ '');\<newline>\<newline>''"

section \<open>Example data\<close>

text \<open>
  A column descriptor with a name, a type and the \<open>primary\<close> flag only, and a table
  descriptor as the provider sends it (no layout fields yet).
\<close>

definition mk_column :: "string \<Rightarrow> string \<Rightarrow> bool \<Rightarrow> column" where
  "mk_column n ty pk =
     \<lparr>c_name = n, c_type = ty, c_primary = pk, c_unique = False, c_nullable = False,
      c_default = JUndefined\<rparr>"

definition mk_table :: "string \<Rightarrow> column list \<Rightarrow> table" where
  "mk_table n cs =
     \<lparr>t_name = n, t_columns = cs, t_row_count = 0, t_x = Undefined, t_y = Undefined,
      t_width = Undefined, t_height = Undefined\<rparr>"

text \<open>The component's state before the first load: the initial values of its references.\<close>

definition initial_state :: state where
  "initial_state =
     \<lparr>loading = False, tables = [], relationships = [], autoLayout = True,
      svgWidth = 1200, svgHeight = 800\<rparr>"

text \<open>The two tables of the end-to-end scenario of the specification.\<close>

definition users_orders :: "table list" where
  "users_orders =
     [mk_table ''users'' [mk_column ''id'' ''INT'' True],
      mk_table ''orders'' [mk_column ''id'' ''INT'' True, mk_column ''user_id'' ''INT'' False]]"

text \<open>A model with a table that is itself named \<open>id\<close>.\<close>

definition id_tables :: "table list" where
  "id_tables =
     [mk_table ''id'' [mk_column ''id'' ''INT'' True],
      mk_table ''users'' [mk_column ''id'' ''INT'' True]]"

text \<open>The scenario with the first table named \<open>user\<close>, the stripped name of \<open>user_id\<close>.\<close>

definition user_orders :: "table list" where
  "user_orders =
     [mk_table ''user'' [mk_column ''id'' ''INT'' True],
      mk_table ''orders'' [mk_column ''id'' ''INT'' True, mk_column ''user_id'' ''INT'' False]]"

text \<open>A table \<open>category\<close> whose column \<open>category_id\<close> points at the table itself.\<close>

definition category_tables :: "table list" where
  "category_tables =
     [mk_table ''category'' [mk_column ''id'' ''INT'' True, mk_column ''category_id'' ''INT'' False]]"

text \<open>Schemas of one, four and seven small tables.\<close>

definition one_table :: "table list" where
  "one_table = [mk_table ''users'' [mk_column ''id'' ''INT'' True]]"

definition named_table :: "string \<Rightarrow> table" where
  "named_table n = mk_table n [mk_column ''id'' ''INT'' True, mk_column ''name'' ''TEXT'' False]"

definition four_tables :: "table list" where
  "four_tables = map named_table [''users'', ''orders'', ''items'', ''tags'']"

definition seven_tables :: "table list" where
  "seven_tables =
     map named_table [''users'', ''orders'', ''items'', ''tags'', ''carts'', ''roles'', ''logs'']"

text \<open>
  The state with automatic layout switched off, and the same on a canvas that is narrower
  than a table node.
\<close>

definition manual_state :: state where
  "manual_state = initial_state\<lparr>autoLayout := False\<rparr>"

definition narrow_state :: state where
  "narrow_state = manual_state\<lparr>svgWidth := 200\<rparr>"

text \<open>
  A drag in manual mode: the table \<open>users\<close> as the load lays it out at (100, 100), the
  container at (20, 60) in the viewport, and the pointer pressed at (150, 200) on the table.
\<close>

definition laid_out_table :: table where
  "laid_out_table = hd (tables (loadSchema (Body (Some one_table)) manual_state))"

definition container_rect :: client_rect where
  "container_rect = \<lparr>rect_left = 20, rect_top = 60\<rparr>"

definition idle :: drag where
  "idle = \<lparr>dragTable = None, dragOffset_x = 0, dragOffset_y = 0, listening = False\<rparr>"

definition grabbed :: drag where
  "grabbed =
     startDrag manual_state laid_out_table \<lparr>clientX = 150, clientY = 200\<rparr>
       \<lparr>rect_left = 120, rect_top = 160\<rparr> idle"

text \<open>
  A table whose columns have the defaults \<open>false\<close>, \<open>0\<close> and \<open>true\<close>.
\<close>

definition settings_table :: table where
  "settings_table =
     mk_table ''settings''
       [\<lparr>c_name = ''active'', c_type = ''BOOLEAN'', c_primary = False, c_unique = False,
         c_nullable = True, c_default = JBool False\<rparr>,
        \<lparr>c_name = ''retries'', c_type = ''INT'', c_primary = False, c_unique = False,
         c_nullable = True, c_default = JNumber 0\<rparr>,
        \<lparr>c_name = ''enabled'', c_type = ''BOOLEAN'', c_primary = False, c_unique = False,
         c_nullable = True, c_default = JBool True\<rparr>]"







section \<open>Facts about the string helpers\<close>

lemma endsWith_iff_append: "endsWith str suf \<longleftrightarrow> (\<exists>p. str = p @ suf)"
proof
  assume "endsWith str suf"
  then have "str = take (length str - length suf) str @ suf"
    by (metis append_take_drop_id endsWith_def)
  then show "\<exists>p. str = p @ suf" ..
next
  assume "\<exists>p. str = p @ suf"
  then show "endsWith str suf" by (auto simp: endsWith_def)
qed

lemma replace_id_suffix_append: "replace_id_suffix (p @ ''_id'') = p"
  by (induction p) auto

lemma endsWith_Cons: "endsWith cs suf \<Longrightarrow> endsWith (c # cs) suf"
  unfolding endsWith_iff_append by (metis append_Cons)

lemma replace_id_suffix_no_match:
  "\<not> endsWith str ''_id'' \<Longrightarrow> replace_id_suffix str = str"
proof (induction str)
  case Nil
  then show ?case by simp
next
  case (Cons c cs)
  have "c # cs \<noteq> ''_id''"
    using Cons.prems by (auto simp: endsWith_def)
  moreover have "\<not> endsWith cs ''_id''"
    using Cons.prems endsWith_Cons by blast
  ultimately show ?case using Cons.IH by simp
qed

lemma replace_id_suffix_take:
  "endsWith str ''_id'' \<Longrightarrow> replace_id_suffix str = take (length str - 3) str"
  unfolding endsWith_iff_append by (auto simp: replace_id_suffix_append)

section \<open>The loops of detectRelationships as a concatenation\<close>

lemma detect_column_append:
  "detect_column ts t rels c = rels @ detect_column ts t [] c"
  by (simp add: detect_column_def Let_def)

lemma foldl_detect_column:
  "foldl (detect_column ts t) rels cs = rels @ concat (map (detect_column ts t []) cs)"
proof (induction cs arbitrary: rels)
  case Nil
  then show ?case by simp
next
  case (Cons c cs)
  show ?case
    by (simp add: Cons.IH [of "detect_column ts t rels c"])
       (simp add: detect_column_append [of ts t rels c])
qed

lemma foldl_tables:
  "foldl (\<lambda>rels table. foldl (detect_column ts table) rels (t_columns table)) rels us =
   rels @ concat (map (\<lambda>t. concat (map (detect_column ts t []) (t_columns t))) us)"
  by (induction us arbitrary: rels) (simp_all add: foldl_detect_column)

lemma detectRelationships_concat:
  "relationships (detectRelationships s) =
   concat (map (\<lambda>t. concat (map (detect_column (tables s) t []) (t_columns t))) (tables s))"
  by (simp add: detectRelationships_def foldl_tables)

lemma detectRelationships_tables [simp]:
  "tables (detectRelationships s) = tables s"
  by (simp add: detectRelationships_def)

lemma list_ex_name: "list_ex (\<lambda>t. t_name t = n) ts \<longleftrightarrow> n \<in> set (map t_name ts)"
  by (auto simp: list_ex_iff)

lemma concat_all_columns:
  "concat (map (\<lambda>(t, c). f t c) (all_columns ts)) =
   concat (map (\<lambda>t. concat (map (f t) (t_columns t))) ts)"
  by (induction ts) (simp_all add: all_columns_def comp_def)

lemma detect_column_names:
  "set (map t_name ts') = set (map t_name ts) \<Longrightarrow> t_name t' = t_name t \<Longrightarrow>
   detect_column ts' t' rels = detect_column ts t rels"
  by (rule ext) (simp add: detect_column_def list_ex_name Let_def)

lemma concat_map_names_columns:
  assumes "map t_name us' = map t_name us"
    and "map t_columns us' = map t_columns us"
    and "\<And>t t'. t_name t' = t_name t \<Longrightarrow> F t' = F t"
  shows "concat (map (\<lambda>t. concat (map (F t) (t_columns t))) us') =
         concat (map (\<lambda>t. concat (map (F t) (t_columns t))) us)"
  using assms(1,2)
proof (induction us arbitrary: us')
  case Nil
  then show ?case by simp
next
  case (Cons u us)
  then obtain v vs where us': "us' = v # vs" by (cases us') auto
  with Cons.prems have "t_name v = t_name u" "t_columns v = t_columns u"
    "map t_name vs = map t_name us" "map t_columns vs = map t_columns us"
    by simp_all
  then show ?case
    using Cons.IH [of vs] assms(3) [of u v] by (simp add: us')
qed

lemma detectRelationships_names_columns:
  assumes "map t_name (tables s') = map t_name (tables s)"
    and "map t_columns (tables s') = map t_columns (tables s)"
  shows "relationships (detectRelationships s') = relationships (detectRelationships s)"
proof -
  have names: "set (map t_name (tables s')) = set (map t_name (tables s))"
    using assms(1) by simp
  have G: "detect_column (tables s') t [] = detect_column (tables s) t []" for t
    by (rule detect_column_names [OF names refl])
  have "relationships (detectRelationships s') =
      concat (map (\<lambda>t. concat (map (detect_column (tables s) t []) (t_columns t))) (tables s'))"
    by (simp only: detectRelationships_concat G)
  also have "\<dots> = relationships (detectRelationships s)"
    unfolding detectRelationships_concat
  proof (rule concat_map_names_columns [OF assms])
    fix t t' :: table
    assume "t_name t' = t_name t"
    then show "detect_column (tables s) t' [] = detect_column (tables s) t []"
      by (rule detect_column_names [OF refl])
  qed
  finally show ?thesis .
qed

section \<open>Layout keeps names and columns\<close>

lemma layout_map_field:
  assumes "\<And>i t. f (h (i, t)) = f t"
  shows "map (f \<circ> h) (enumerate n ts) = map f ts"
proof -
  have "map (f \<circ> h) (enumerate n ts) = map (f \<circ> snd) (enumerate n ts)"
    by (rule map_cong [OF refl]) (auto simp: assms)
  also have "\<dots> = map f ts"
    by (simp only: map_map [symmetric] map_snd_enumerate)
  finally show ?thesis .
qed

lemma applyAutoLayout_names [simp]:
  "map t_name (tables (applyAutoLayout s)) = map t_name (tables s)"
  by (simp add: applyAutoLayout_def Let_def layout_map_field)

lemma applyAutoLayout_columns [simp]:
  "map t_columns (tables (applyAutoLayout s)) = map t_columns (tables s)"
  by (simp add: applyAutoLayout_def Let_def layout_map_field)

lemma setDefaultPositions_names [simp]:
  "map t_name (setDefaultPositions ts) = map t_name ts"
  by (simp add: setDefaultPositions_def layout_map_field)

lemma setDefaultPositions_columns [simp]:
  "map t_columns (setDefaultPositions ts) = map t_columns ts"
  by (simp add: setDefaultPositions_def layout_map_field)

lemma loadSchema_Body_names:
  "map t_name (tables (loadSchema (Body (Some ts)) s)) = map t_name ts"
  by (simp add: loadSchema_def Let_def)

lemma loadSchema_Body_columns:
  "map t_columns (tables (loadSchema (Body (Some ts)) s)) = map t_columns ts"
  by (simp add: loadSchema_def Let_def)

lemma loadSchema_Body_relationships:
  "relationships (loadSchema (Body (Some ts)) s) =
   relationships (detectRelationships (s\<lparr>tables := ts\<rparr>))"
proof -
  let ?s1 = "s\<lparr>loading := True, tables := ts\<rparr>"
  let ?s2 = "if autoLayout ?s1 then applyAutoLayout ?s1
             else if first_x_unset (tables ?s1)
               then ?s1\<lparr>tables := setDefaultPositions (tables ?s1)\<rparr>
             else ?s1"
  have "relationships (loadSchema (Body (Some ts)) s) = relationships (detectRelationships ?s2)"
    by (simp add: loadSchema_def Let_def)
  also have "\<dots> = relationships (detectRelationships (s\<lparr>tables := ts\<rparr>))"
    by (rule detectRelationships_names_columns) simp_all
  finally show ?thesis .
qed

section \<open>Claims on relationship detection\<close>

text \<open>
  C10. Relationship inference can emit a self-reference: for every table named \<open>X\<close> of the
  model that has a column named \<open>X_id\<close>, the relationship from \<open>X\<close> to \<open>X\<close> over that column,
  of kind \<open>foreign_key\<close>, is among the detected relationships.
\<close>

theorem detectRelationships_self_reference:
  assumes "t \<in> set (tables s)"
    and "c \<in> set (t_columns t)"
    and "c_name c = t_name t @ ''_id''"
  shows "\<lparr>r_from = t_name t, r_to = t_name t, r_column = t_name t @ ''_id'',
          r_type = ''foreign_key''\<rparr> \<in> set (relationships (detectRelationships s))"
proof -
  have ends: "endsWith (c_name c) ''_id''"
    using assms(3) endsWith_iff_append by blast
  have ref: "replace_id_suffix (c_name c) = t_name t"
    using assms(3) by (simp add: replace_id_suffix_append)
  have "list_ex (\<lambda>u. t_name u = t_name t) (tables s)"
    using assms(1) by (auto simp: list_ex_iff)
  then have "detect_column (tables s) t [] c =
      [\<lparr>r_from = t_name t, r_to = t_name t, r_column = t_name t @ ''_id'',
        r_type = ''foreign_key''\<rparr>]"
    using ends ref assms(3) by (simp add: detect_column_def Let_def)
  then show ?thesis
    unfolding detectRelationships_concat using assms(1,2) by force
qed

theorem detectRelationships_self_reference_witness:
  "mk_table ''category'' [mk_column ''id'' ''INT'' True, mk_column ''category_id'' ''INT'' False]
     \<in> set (tables (initial_state\<lparr>tables := category_tables\<rparr>)) \<and>
   mk_column ''category_id'' ''INT'' False
     \<in> set (t_columns (mk_table ''category''
           [mk_column ''id'' ''INT'' True, mk_column ''category_id'' ''INT'' False])) \<and>
   \<lparr>r_from = ''category'', r_to = ''category'', r_column = ''category_id'',
     r_type = ''foreign_key''\<rparr>
     \<in> set (relationships (detectRelationships (initial_state\<lparr>tables := category_tables\<rparr>)))"
  using detectRelationships_self_reference
    [of "mk_table ''category'' [mk_column ''id'' ''INT'' True, mk_column ''category_id'' ''INT'' False]"
        "initial_state\<lparr>tables := category_tables\<rparr>"
        "mk_column ''category_id'' ''INT'' False"]
  by (simp add: category_tables_def mk_table_def mk_column_def)

text \<open>
  C1 (as amended). For every table \<open>T\<close> and every column of \<open>T\<close> whose name ends with \<open>_id\<close>,
  exactly one relationship from the stripped name to \<open>T\<close> over that column, of kind
  \<open>foreign_key\<close>, is emitted if a table with the stripped name exists, and none otherwise.
  A column literally named \<open>id\<close> is also examined: its candidate name is \<open>id\<close> itself,
  and it yields one relationship from \<open>id\<close> to \<open>T\<close> exactly when a table named \<open>id\<close>
  exists. No other column yields a relationship. The detected list is the concatenation of
  these contributions.
\<close>

theorem detectRelationships_per_column:
  "relationships (detectRelationships s) =
   concat (map (\<lambda>T. concat (map (inferred_for_column (tables s) T) (t_columns T))) (tables s))"
proof -
  have "detect_column ts T [] col = inferred_for_column ts T col" for ts T col
  proof (cases "endsWith (c_name col) ''_id''")
    case True
    then show ?thesis
      by (simp add: detect_column_def inferred_for_column_def Let_def list_ex_name
          replace_id_suffix_take)
  next
    case False
    then show ?thesis
      by (auto simp add: detect_column_def inferred_for_column_def Let_def list_ex_name
          replace_id_suffix_no_match)
  qed
  then have "detect_column ts T [] = inferred_for_column ts T" for ts T
    by (simp add: fun_eq_iff)
  then show ?thesis
    by (simp add: detectRelationships_concat)
qed

text \<open>
  The statement that a column named \<open>id\<close> produces no relationship fails: \<open>id\<close> does not
  end with \<open>_id\<close>, yet in a model with a table named \<open>id\<close> every column named \<open>id\<close>
  produces a relationship.
\<close>

theorem detectRelationships_id_column_counterexample:
  "\<not> endsWith ''id'' ''_id'' \<and>
   relationships (detectRelationships (initial_state\<lparr>tables := id_tables\<rparr>)) =
     [\<lparr>r_from = ''id'', r_to = ''id'', r_column = ''id'', r_type = ''foreign_key''\<rparr>,
      \<lparr>r_from = ''id'', r_to = ''users'', r_column = ''id'', r_type = ''foreign_key''\<rparr>]"
  by (simp add: detectRelationships_def detect_column_def initial_state_def id_tables_def
      mk_table_def mk_column_def endsWith_def Let_def)

text \<open>
  C2 (as amended). Loading exactly the tables \<open>users\<close> (\<open>id\<close>) and \<open>orders\<close> (\<open>id\<close>,
  \<open>user_id\<close>) yields no relationship: the candidate name \<open>user\<close> is compared with the table
  names as they are, and no table is named \<open>user\<close>. With the first table named \<open>user\<close>
  the load yields exactly the one relationship from \<open>user\<close> to \<open>orders\<close> over \<open>user_id\<close>.
\<close>

theorem loadSchema_users_orders:
  "relationships (loadSchema (Body (Some users_orders)) s) = [] \<and>
   relationships (loadSchema (Body (Some user_orders)) s) =
     [\<lparr>r_from = ''user'', r_to = ''orders'', r_column = ''user_id'',
       r_type = ''foreign_key''\<rparr>]"
  by (simp add: loadSchema_Body_relationships detectRelationships_def detect_column_def
      users_orders_def user_orders_def mk_table_def mk_column_def endsWith_def Let_def)

text \<open>The relationship from \<open>users\<close> that the scenario expects is not what the load yields.\<close>

theorem loadSchema_users_orders_counterexample:
  "relationships (loadSchema (Body (Some users_orders)) initial_state) \<noteq>
   [\<lparr>r_from = ''users'', r_to = ''orders'', r_column = ''user_id'',
     r_type = ''foreign_key''\<rparr>]"
  by (simp add: loadSchema_Body_relationships detectRelationships_def detect_column_def
      users_orders_def mk_table_def mk_column_def endsWith_def Let_def)

text \<open>
  C5. Relationship inference is a function of the tables alone: it leaves the tables as
  they are, running it again changes nothing, two states with the same tables get the same
  relationships whatever they held before, and the relationships are the contributions of
  the (table, column) pairs taken in table order, then column order.
\<close>

theorem detectRelationships_pure_ordered:
  "detectRelationships (detectRelationships s) = detectRelationships s \<and>
   tables (detectRelationships s) = tables s \<and>
   (tables s' = tables s \<longrightarrow>
      relationships (detectRelationships s') = relationships (detectRelationships s)) \<and>
   relationships (detectRelationships s) =
     concat (map (\<lambda>(t, c). detect_column (tables s) t [] c) (all_columns (tables s)))"
proof -
  have "detectRelationships (detectRelationships s) = detectRelationships s"
    by (simp add: detectRelationships_def)
  moreover have "tables s' = tables s \<longrightarrow>
      relationships (detectRelationships s') = relationships (detectRelationships s)"
    by (simp add: detectRelationships_def)
  moreover have "relationships (detectRelationships s) =
     concat (map (\<lambda>(t, c). detect_column (tables s) t [] c) (all_columns (tables s)))"
    by (simp add: detectRelationships_concat concat_all_columns)
  ultimately show ?thesis by simp
qed

theorem detectRelationships_pure_ordered_witness:
  "tables (initial_state\<lparr>tables := users_orders, relationships :=
       [\<lparr>r_from = ''a'', r_to = ''b'', r_column = ''a_id'', r_type = ''foreign_key''\<rparr>],
       autoLayout := False\<rparr>) = tables (initial_state\<lparr>tables := users_orders\<rparr>) \<and>
   relationships (detectRelationships (initial_state\<lparr>tables := users_orders, relationships :=
       [\<lparr>r_from = ''a'', r_to = ''b'', r_column = ''a_id'', r_type = ''foreign_key''\<rparr>],
       autoLayout := False\<rparr>)) =
   relationships (detectRelationships (initial_state\<lparr>tables := users_orders\<rparr>))"
  using detectRelationships_pure_ordered
    [of "initial_state\<lparr>tables := users_orders\<rparr>"
        "initial_state\<lparr>tables := users_orders, relationships :=
       [\<lparr>r_from = ''a'', r_to = ''b'', r_column = ''a_id'', r_type = ''foreign_key''\<rparr>],
       autoLayout := False\<rparr>"]
  by simp

section \<open>Claims on loading\<close>

text \<open>
  C6 (as amended). A load replaces the table list as a whole once the provider has
  answered. If the request fails, tables and relationships are left exactly as they were
  before the load (empty only if nothing was loaded before). If the answer carries no
  table list, the model becomes empty: no tables, no relationships. Otherwise the tables
  are the answer's tables, in order and with their columns, and the relationships are the
  ones inferred from them.
\<close>

theorem loadSchema_replaces_or_keeps:
  "tables (loadSchema Failed s) = tables s \<and>
   relationships (loadSchema Failed s) = relationships s \<and>
   tables (loadSchema (Body None) s) = [] \<and>
   relationships (loadSchema (Body None) s) = [] \<and>
   map t_name (tables (loadSchema (Body (Some ts)) s)) = map t_name ts \<and>
   map t_columns (tables (loadSchema (Body (Some ts)) s)) = map t_columns ts \<and>
   relationships (loadSchema (Body (Some ts)) s) =
     relationships (detectRelationships (s\<lparr>tables := ts\<rparr>))"
proof -
  have "tables (loadSchema Failed s) = tables s"
    and "relationships (loadSchema Failed s) = relationships s"
    by (simp_all add: loadSchema_def)
  moreover have "tables (loadSchema (Body None) s) = []"
    by (simp add: loadSchema_def Let_def applyAutoLayout_def setDefaultPositions_def
        detectRelationships_def)
  moreover have "relationships (loadSchema (Body None) s) = []"
    by (simp add: loadSchema_def Let_def applyAutoLayout_def setDefaultPositions_def
        detectRelationships_def)
  ultimately show ?thesis
    by (simp add: loadSchema_Body_names loadSchema_Body_columns loadSchema_Body_relationships)
qed

text \<open>
  The statement that a load which cannot complete leaves the model empty fails: a load
  that fails after a successful one leaves the two tables of the earlier load in the model.
\<close>

theorem loadSchema_failure_counterexample:
  "length (tables (loadSchema Failed (loadSchema (Body (Some users_orders)) initial_state))) = 2"
proof -
  have "length (map t_name (tables (loadSchema Failed
          (loadSchema (Body (Some users_orders)) initial_state)))) = 2"
    by (simp add: loadSchema_def [of Failed] loadSchema_Body_names users_orders_def)
  then show ?thesis by simp
qed

section \<open>Claims on layout\<close>

lemma applyAutoLayout_length [simp]:
  "length (tables (applyAutoLayout s)) = length (tables s)"
  by (simp add: applyAutoLayout_def Let_def)

text \<open>
  C3 (as amended). For \<open>N \<ge> 1\<close> tables laid out in auto mode on a canvas of width \<open>W\<close> and
  height \<open>H\<close>, table \<open>i\<close> (counted from 0) is placed at angle \<open>2\<pi>i/N\<close> on the circle of radius
  \<open>min(W,H)/3\<close> around \<open>(W/2, H/2)\<close>; its top-left corner is the point of the circle moved
  left by half the width 280 and up by 100, which is half of the base height 200 and not
  half of the table's height; its width is 280 and its height \<open>200 + 25 * columnCount\<close>. All
  other fields and the number of tables stay as they are.
\<close>

theorem applyAutoLayout_nth:
  assumes "i < length (tables s)"
  shows "length (tables (applyAutoLayout s)) = length (tables s) \<and>
    tables (applyAutoLayout s) ! i =
      (tables s ! i)
        \<lparr>t_x := Num (svgWidth s / 2
                 + min (svgWidth s) (svgHeight s) / 3
                   * cos (2 * pi * real i / real (length (tables s)))
                 - 280 / 2),
         t_y := Num (svgHeight s / 2
                 + min (svgWidth s) (svgHeight s) / 3
                   * sin (2 * pi * real i / real (length (tables s)))
                 - 200 / 2),
         t_width := Num 280,
         t_height := Num (200 + 25 * real (length (t_columns (tables s ! i))))\<rparr>"
  using assms
  by (simp add: applyAutoLayout_def Let_def nth_enumerate_eq mult.commute mult.left_commute)

theorem applyAutoLayout_nth_witness:
  "0 < length (tables (initial_state\<lparr>tables := one_table\<rparr>)) \<and>
   tables (applyAutoLayout (initial_state\<lparr>tables := one_table\<rparr>)) ! 0 =
     (mk_table ''users'' [mk_column ''id'' ''INT'' True])
       \<lparr>t_x := Num (2180 / 3), t_y := Num 300, t_width := Num 280, t_height := Num 225\<rparr>"
  using applyAutoLayout_nth [of 0 "initial_state\<lparr>tables := one_table\<rparr>"]
  by (simp add: initial_state_def one_table_def mk_table_def mk_column_def)

text \<open>
  The statement with \<open>height/2\<close> fails: a single table with one column on the 1200 by 800
  canvas has height 225 and gets \<open>y = 300\<close>, while the formula with half the height gives
  287.5.
\<close>

theorem applyAutoLayout_height_counterexample:
  "t_y (tables (applyAutoLayout (initial_state\<lparr>tables := one_table\<rparr>)) ! 0) = Num 300 \<and>
   t_height (tables (applyAutoLayout (initial_state\<lparr>tables := one_table\<rparr>)) ! 0) = Num 225 \<and>
   (800 / 2 + min 1200 800 / 3 * sin (2 * pi * 0 / 1) - 225 / 2 :: real) \<noteq> 300"
  by (simp add: applyAutoLayout_def initial_state_def one_table_def mk_table_def mk_column_def
      Let_def)

section \<open>Claims on dragging and the canvas bounds\<close>

lemma handleDrag_step:
  assumes "dragTable d = Some t" and "t_width t = Num w" and "t_height t = Num h"
  shows "handleDrag s r e d =
     d\<lparr>dragTable := Some (t
       \<lparr>t_x := Num (max 0 (min (svgWidth s - w) (clientX e - rect_left r - dragOffset_x d))),
        t_y := Num (max 0 (min (svgHeight s - h) (clientY e - rect_top r - dragOffset_y d)))\<rparr>)\<rparr>"
  using assms by (simp add: handleDrag_def Let_def)

lemma handleDrag_keeps_size:
  assumes "dragTable d = Some t" and "t_width t = Num w" and "t_height t = Num h"
  shows "\<exists>t'. dragTable (foldl (\<lambda>d e. handleDrag s r e d) d es) = Some t' \<and>
     t_width t' = Num w \<and> t_height t' = Num h"
  using assms
proof (induction es arbitrary: d t)
  case Nil
  then show ?case by simp
next
  case (Cons e es)
  show ?case
    using Cons.IH [of "handleDrag s r e d"] Cons.prems
    by (simp add: handleDrag_step [OF Cons.prems])
qed

lemma laid_out_table_eq:
  "laid_out_table = (mk_table ''users'' [mk_column ''id'' ''INT'' True])
     \<lparr>t_x := Num 100, t_y := Num 100, t_width := Num 280, t_height := Num 225\<rparr>"
  by (simp add: laid_out_table_def loadSchema_def manual_state_def initial_state_def
      one_table_def first_x_unset_def setDefaultPositions_def detectRelationships_def
      mk_table_def mk_column_def Let_def)

lemma grabbed_eq:
  "grabbed = \<lparr>dragTable = Some laid_out_table, dragOffset_x = 30, dragOffset_y = 40,
      listening = True\<rparr>"
  by (simp add: grabbed_def startDrag_def manual_state_def initial_state_def idle_def)

lemma sin_quarter: "sin (2 * pi / 4) = 1"
proof -
  have "2 * pi / 4 = pi / 2" by simp
  then show ?thesis by (simp only: sin_pi_half)
qed

lemma cos_quarter: "cos (2 * pi / 4) = 0"
proof -
  have "2 * pi / 4 = pi / 2" by simp
  then show ?thesis by (simp only: cos_pi_half)
qed

text \<open>
  C4 (as amended). After one or more pointer moves of a drag, the dragged table (whose
  width \<open>w\<close> and height \<open>h\<close> are set and do not change) has
  \<open>0 \<le> x \<le> max(0, canvasWidth - w)\<close> and \<open>0 \<le> y \<le> max(0, canvasHeight - h)\<close>; when the
  canvas is at least as wide and as high as the table, this is the bounds invariant
  \<open>0 \<le> x \<le> canvasWidth - w\<close> and \<open>0 \<le> y \<le> canvasHeight - h\<close>. The layout operations
  (automatic placement and the default positions of manual mode) do not clamp.
\<close>

theorem handleDrag_clamps:
  assumes "dragTable d = Some t" and "t_width t = Num w" and "t_height t = Num h"
    and "es \<noteq> []"
  shows "\<exists>t' x y. dragTable (foldl (\<lambda>d e. handleDrag s r e d) d es) = Some t' \<and>
     t_x t' = Num x \<and> t_y t' = Num y \<and> t_width t' = Num w \<and> t_height t' = Num h \<and>
     0 \<le> x \<and> x \<le> max 0 (svgWidth s - w) \<and> 0 \<le> y \<and> y \<le> max 0 (svgHeight s - h) \<and>
     (w \<le> svgWidth s \<and> h \<le> svgHeight s \<longrightarrow> within_canvas s t')"
proof -
  from assms(4) obtain es' e where es: "es = es' @ [e]"
    by (cases es rule: rev_cases) auto
  let ?d = "foldl (\<lambda>d e. handleDrag s r e d) d es'"
  obtain u where u: "dragTable ?d = Some u" "t_width u = Num w" "t_height u = Num h"
    using handleDrag_keeps_size [OF assms(1-3)] by blast
  have last: "foldl (\<lambda>d e. handleDrag s r e d) d es = handleDrag s r e ?d"
    by (simp add: es)
  show ?thesis
    unfolding last handleDrag_step [OF u]
    by (simp add: u within_canvas_def) linarith
qed

theorem handleDrag_clamps_witness:
  "\<exists>t'. dragTable (foldl (\<lambda>d e. handleDrag manual_state container_rect e d) grabbed
       [\<lparr>clientX = 0, clientY = 1000\<rparr>, \<lparr>clientX = 5000, clientY = - 40\<rparr>]) = Some t' \<and>
     t_x t' = Num 920 \<and> t_y t' = Num 0 \<and> within_canvas manual_state t'"
  using handleDrag_clamps [of grabbed laid_out_table 280 225
      "[\<lparr>clientX = 0, clientY = 1000\<rparr>, \<lparr>clientX = 5000, clientY = - 40\<rparr>]"
      manual_state container_rect]
  by (simp add: grabbed_eq laid_out_table_eq manual_state_def initial_state_def
      container_rect_def handleDrag_def Let_def)

text \<open>
  The invariant as stated fails in three ways. In auto mode on the 1200 by 800 canvas, the
  second of four tables with two columns each is placed with \<open>y = 1700/3\<close>, which is
  more than \<open>800 - 250\<close>. In manual mode the seventh table gets \<open>y = 600\<close>, more than
  \<open>800 - 250\<close> as well. And on a canvas of width 200 a drag leaves the 280 wide table at
  \<open>x = 0\<close>, which is more than \<open>200 - 280\<close>.
\<close>

theorem layout_not_clamped_counterexample:
  "\<not> within_canvas (initial_state\<lparr>tables := four_tables\<rparr>)
       (tables (applyAutoLayout (initial_state\<lparr>tables := four_tables\<rparr>)) ! 1) \<and>
   \<not> within_canvas manual_state
       (tables (loadSchema (Body (Some seven_tables)) manual_state) ! 6) \<and>
   dragTable (handleDrag narrow_state container_rect \<lparr>clientX = 300, clientY = 300\<rparr>
       grabbed) = Some (laid_out_table\<lparr>t_x := Num 0, t_y := Num 200\<rparr>) \<and>
   \<not> within_canvas narrow_state (laid_out_table\<lparr>t_x := Num 0, t_y := Num 200\<rparr>)"
proof -
  have "tables (applyAutoLayout (initial_state\<lparr>tables := four_tables\<rparr>)) ! 1 =
      (named_table ''orders'')
        \<lparr>t_x := Num 460, t_y := Num (1700 / 3), t_width := Num 280, t_height := Num 250\<rparr>"
    by (simp add: applyAutoLayout_def initial_state_def four_tables_def named_table_def
        mk_table_def mk_column_def Let_def sin_quarter cos_quarter)
  then have auto_mode: "\<not> within_canvas (initial_state\<lparr>tables := four_tables\<rparr>)
       (tables (applyAutoLayout (initial_state\<lparr>tables := four_tables\<rparr>)) ! 1)"
    by (simp add: within_canvas_def initial_state_def)
  have "tables (loadSchema (Body (Some seven_tables)) manual_state) ! 6 =
      (named_table ''logs'')
        \<lparr>t_x := Num 100, t_y := Num 600, t_width := Num 280, t_height := Num 250\<rparr>"
    by (simp add: loadSchema_def manual_state_def initial_state_def seven_tables_def
        first_x_unset_def setDefaultPositions_def detectRelationships_def named_table_def
        mk_table_def mk_column_def Let_def)
  then have manual_mode: "\<not> within_canvas manual_state
       (tables (loadSchema (Body (Some seven_tables)) manual_state) ! 6)"
    by (simp add: within_canvas_def manual_state_def initial_state_def)
  have narrow: "dragTable (handleDrag narrow_state container_rect
       \<lparr>clientX = 300, clientY = 300\<rparr> grabbed) =
         Some (laid_out_table\<lparr>t_x := Num 0, t_y := Num 200\<rparr>) \<and>
     \<not> within_canvas narrow_state (laid_out_table\<lparr>t_x := Num 0, t_y := Num 200\<rparr>)"
    by (simp add: grabbed_eq laid_out_table_eq narrow_state_def manual_state_def
        initial_state_def container_rect_def handleDrag_def within_canvas_def Let_def)
  from auto_mode manual_mode narrow show ?thesis by simp
qed

text \<open>
  C9. On a 1200 by 800 canvas, a pointer move that would put a 280 by 225 table at
  \<open>(-50, 900)\<close> leaves it at \<open>(0, 575)\<close>.
\<close>

theorem handleDrag_scenario:
  assumes "svgWidth s = 1200" and "svgHeight s = 800"
    and "dragTable d = Some t" and "t_width t = Num 280" and "t_height t = Num 225"
    and "clientX e - rect_left r - dragOffset_x d = - 50"
    and "clientY e - rect_top r - dragOffset_y d = 900"
  shows "dragTable (handleDrag s r e d) = Some (t\<lparr>t_x := Num 0, t_y := Num 575\<rparr>)"
  using assms by (simp add: handleDrag_def Let_def)

theorem handleDrag_scenario_witness:
  "svgWidth manual_state = 1200 \<and> svgHeight manual_state = 800 \<and>
   dragTable grabbed = Some laid_out_table \<and>
   t_width laid_out_table = Num 280 \<and> t_height laid_out_table = Num 225 \<and>
   clientX \<lparr>clientX = 0, clientY = 1000\<rparr> - rect_left container_rect - dragOffset_x grabbed = - 50 \<and>
   clientY \<lparr>clientX = 0, clientY = 1000\<rparr> - rect_top container_rect - dragOffset_y grabbed = 900 \<and>
   dragTable (handleDrag manual_state container_rect \<lparr>clientX = 0, clientY = 1000\<rparr> grabbed) =
     Some (laid_out_table\<lparr>t_x := Num 0, t_y := Num 575\<rparr>)"
  using handleDrag_scenario [of manual_state grabbed laid_out_table
      "\<lparr>clientX = 0, clientY = 1000\<rparr>" container_rect]
  by (simp add: grabbed_eq laid_out_table_eq manual_state_def initial_state_def
      container_rect_def)

section \<open>Claims on connection paths\<close>










section \<open>Claims on the SQL export\<close>

lemma export_column_line:
  "export_column fmt n sql (i, col) =
   sql @ column_ddl fmt col @ (if int i < int n - 1 then '','' else []) @ ''\<newline>''"
  by (simp add: export_column_def column_ddl_def Let_def)

lemma foldl_export_column:
  "foldl (export_column fmt (k + length cs)) sql (enumerate k cs) =
   sql @ comma_lines (map (column_ddl fmt) cs)"
proof (induction cs arbitrary: k sql)
  case Nil
  then show ?case by simp
next
  case (Cons c cs)
  have step: "foldl (export_column fmt (k + length (c # cs))) sql' (enumerate (Suc k) cs) =
      sql' @ comma_lines (map (column_ddl fmt) cs)" for sql'
    using Cons.IH [of "Suc k" sql'] by simp
  show ?case
  proof (cases cs)
    case Nil
    then show ?thesis
      by (simp add: export_column_line)
  next
    case inner: (Cons c' cs')
    have "int k < int (k + length (c # cs)) - 1"
      by (simp add: inner)
    then have "export_column fmt (k + length (c # cs)) sql (k, c) =
        sql @ column_ddl fmt c @ '','' @ ''\<newline>''"
      by (simp only: export_column_line if_True)
    moreover have "comma_lines (map (column_ddl fmt) (c # cs)) =
        column_ddl fmt c @ '','' @ ''\<newline>'' @ comma_lines (map (column_ddl fmt) cs)"
      by (simp add: inner)
    ultimately show ?thesis
      by (simp only: enumerate_simps foldl_Cons step append_assoc)
  qed
qed

lemma export_table_ddl: "export_table fmt sql t = sql @ table_ddl fmt t"
  using foldl_export_column [of fmt 0 "t_columns t"]
  by (simp add: export_table_def table_ddl_def Let_def)

lemma foldl_export_table:
  "foldl (export_table fmt) sql ts = sql @ concat (map (table_ddl fmt) ts)"
  by (induction ts arbitrary: sql) (simp_all add: export_table_ddl)

text \<open>
  The text of the SQL export: after the two header lines, one block per table in table
  order, each a comment line, \<open>CREATE TABLE name (\<close>, the column definitions one per line
  and separated by commas, and the closing \<open>);\<close> with an empty line after it.
\<close>

theorem exportAsSQL_statements:
  "exportAsSQL fmt now s =
     ''-- Database Schema Export\<newline>'' @ ''-- Generated: '' @ now @ ''\<newline>\<newline>''
     @ concat (map (table_ddl fmt) (tables s))"
  by (simp add: exportAsSQL_def foldl_export_table)

text \<open>
  C8. The export lists each column with its type keyword and the constraints that apply.
  It does so except for a default that is falsy: for the columns \<open>active\<close> with default
  \<open>false\<close> and \<open>retries\<close> with default \<open>0\<close> no \<open>DEFAULT\<close> is written, while
  \<open>enabled\<close> with default \<open>true\<close> gets \<open>DEFAULT true\<close>.
\<close>

theorem exportAsSQL_falsy_default:
  "exportAsSQL fmt now (initial_state\<lparr>tables := [settings_table]\<rparr>) =
     ''-- Database Schema Export\<newline>-- Generated: '' @ now @ ''\<newline>\<newline>''
     @ ''-- Table: settings\<newline>''
     @ ''CREATE TABLE settings (\<newline>''
     @ ''  active BOOLEAN,\<newline>''
     @ ''  retries INT,\<newline>''
     @ ''  enabled BOOLEAN DEFAULT true\<newline>''
     @ '');\<newline>\<newline>''"
  by (simp add: exportAsSQL_def export_table_def export_column_def settings_table_def
      initial_state_def mk_table_def enumerate_eq_zip Let_def upt_rec)

section \<open>Node sizes after a load\<close>

lemma in_set_enumerate_map:
  assumes "t' \<in> set (map (\<lambda>(i, t). g i t) (enumerate n ts))"
  obtains i t where "t \<in> set ts" and "t' = g i t"
proof -
  from assms obtain p where p: "p \<in> set (enumerate n ts)" and t': "t' = g (fst p) (snd p)"
    by (auto simp: case_prod_beta)
  from p have "snd p \<in> set ts"
    by (metis in_set_zipE enumerate_eq_zip prod.collapse)
  with t' that show thesis by blast
qed

text \<open>
  Node sizes after a load. When the layout ran (auto mode, or manual mode with no position
  on the first table), every table of the model has a position, the width 280 and the
  height \<open>200 + 25 * columnCount\<close>; so no height is undefined or below 200.
\<close>

theorem loadSchema_sizes:
  assumes "autoLayout s \<or> first_x_unset ts"
    and "t \<in> set (tables (loadSchema (Body (Some ts)) s))"
  shows "t_width t = Num 280 \<and>
    t_height t = Num (200 + 25 * real (length (t_columns t))) \<and>
    (\<exists>x y. t_x t = Num x \<and> t_y t = Num y)"
proof (cases "autoLayout s")
  case True
  then have "t \<in> set (tables (applyAutoLayout (s\<lparr>loading := True, tables := ts\<rparr>)))"
    using assms(2) by (simp add: loadSchema_def Let_def)
  then show ?thesis
    by (auto simp: applyAutoLayout_def Let_def elim!: in_set_enumerate_map)
next
  case False
  with assms(1) have "first_x_unset ts" by simp
  with False have "t \<in> set (setDefaultPositions ts)"
    using assms(2) by (simp add: loadSchema_def Let_def)
  then show ?thesis
    by (auto simp: setDefaultPositions_def elim!: in_set_enumerate_map)
qed

theorem loadSchema_sizes_witness:
  "(autoLayout manual_state \<or> first_x_unset one_table) \<and>
   laid_out_table \<in> set (tables (loadSchema (Body (Some one_table)) manual_state)) \<and>
   t_width laid_out_table = Num 280 \<and> t_height laid_out_table = Num 225"
  using loadSchema_sizes [of manual_state one_table laid_out_table]
  by (simp add: laid_out_table_def loadSchema_def manual_state_def initial_state_def
      one_table_def first_x_unset_def setDefaultPositions_def detectRelationships_def
      mk_table_def mk_column_def Let_def)

end
